theory Spec2Isabelle
  imports Complex_Main
begin

section \<open>Objects, references and the heap\<close>

text \<open>
  The architecture layer of OpenTurbofanArchitecting is a set of Python dataclasses whose
  instances refer to each other (targets, sources, shaft back-references). Several
  properties depend on object identity, so instances live in a heap and are referred to by
  their address; \<open>None\<close> of type \<open>ref\<close> is Python's \<open>None\<close>.

  Fields of type \<open>float\<close> are only stored, compared and passed on by this layer, never
  computed with; they are modelled as \<open>real\<close> (there is no NaN in the model).
\<close>

type_synonym addr = nat
type_synonym ref = "addr option"

datatype CompressorMap = AXI_5 | LPC | HPC
datatype FuelType = JET_A | JP_7
datatype TurbineMap = LPT_2269 | LPT | HPT
datatype NozzleType = CV | CD | CV_CD

fun CompressorMap_value :: "CompressorMap \<Rightarrow> string" where
  "CompressorMap_value AXI_5 = ''AXI5''"
| "CompressorMap_value LPC = ''LPCMap''"
| "CompressorMap_value HPC = ''HPCMap''"

fun FuelType_value :: "FuelType \<Rightarrow> string" where
  "FuelType_value JET_A = ''Jet-A(g)''"
| "FuelType_value JP_7 = ''JP-7''"

fun TurbineMap_value :: "TurbineMap \<Rightarrow> string" where
  "TurbineMap_value LPT_2269 = ''LPT2269''"
| "TurbineMap_value LPT = ''LPTMap''"
| "TurbineMap_value HPT = ''HPTMap''"

fun NozzleType_value :: "NozzleType \<Rightarrow> string" where
  "NozzleType_value CV = ''CV''"
| "NozzleType_value CD = ''CD''"
| "NozzleType_value CV_CD = ''CD_CV''"

text \<open>
  One constructor per class, the arguments in the order of the dataclass fields (inherited
  \<open>name\<close> first). \<open>BaseTurboMachinery\<close>, \<open>Compressor\<close> and \<open>Turbine\<close> carry as last argument
  the private attribute \<open>__shaft\<close> that \<open>BaseTurboMachinery.__post_init__\<close> creates; it is
  not a dataclass field.

  \<^item> \<open>ArchElement name\<close>
  \<^item> \<open>Inlet name target mach p_recovery\<close>
  \<^item> \<open>Duct name target mach p_loss_frac fuel_in_air statics design\<close>
  \<^item> \<open>Splitter name target_core target_bypass bpr core_mach bypass_mach\<close>
  \<^item> \<open>Mixer name source_1 source_2 target mach\<close>
  \<^item> \<open>BleedInter name target target_bleed mach source_frac_w target_frac_p fuel_in_air bleed_names\<close>
  \<^item> \<open>BleedIntra name source target mach source_frac_w source_frac_p source_frac_work
      target_frac_p fuel_in_air bleed_names\<close>
  \<^item> \<open>Nozzle name target type v_loss_coefficient fuel_in_air flow_out\<close>
  \<^item> \<open>BaseTurboMachinery name __shaft\<close>
  \<^item> \<open>Compressor name target map mach pr eff __shaft\<close>
  \<^item> \<open>Burner name target fuel mach p_loss_frac\<close>
  \<^item> \<open>Turbine name target map mach eff __shaft\<close>
  \<^item> \<open>Shaft name connections rpm_design power_loss\<close>
  \<^item> \<open>TurbofanArchitecture elements\<close>
\<close>

datatype pyobj =
    ArchElement string
  | Inlet string ref real real
  | Duct string ref real real bool bool bool
  | Splitter string ref ref real real real
  | Mixer string ref ref ref real
  | BleedInter string ref "string option" real real real bool "string list"
  | BleedIntra string ref ref real real real real real bool "string list"
  | Nozzle string ref NozzleType real bool "string option"
  | BaseTurboMachinery string ref
  | Compressor string ref CompressorMap real real real ref
  | Burner string ref FuelType real real
  | Turbine string ref TurbineMap real real ref
  | Shaft string "addr list option" real real
  | TurbofanArchitecture "addr list"

type_synonym heap = "addr \<Rightarrow> pyobj option"

text \<open>
  The exceptions of the layer. The three \<open>ValueError\<close>s are told apart by their message:
  \<open>'Not connected to shaft: %r'\<close> (the specification's \<open>UnboundTurbomachinery\<close>),
  \<open>'Shaft already set: %r'\<close> (\<open>DuplicateShaftBinding\<close>; the argument is the connection that
  was found bound) and \<open>'Shaft should at least connect two turbomachinery elements!'\<close>
  (\<open>InvalidShaftTopology\<close>). \<open>DanglingReference\<close> is no Python exception: it is what the
  model answers for an address at which the heap holds no object, which a Python reference
  can never be.
\<close>

datatype error =
    ValueError_NotConnectedToShaft
  | ValueError_ShaftAlreadySet addr
  | ValueError_ShaftTooFewConnections
  | NotImplementedError
  | AttributeError
  | TypeError
  | RecursionError
  | DanglingReference

section \<open>Identity, hash and equality\<close>

text \<open>\<open>id(obj)\<close>: the address of the object, an integer.\<close>

definition py_id :: "addr \<Rightarrow> int" where
  "py_id a = int a"

text \<open>
  \<open>hash(obj)\<close>. \<open>ArchElement\<close> and \<open>TurbofanArchitecture\<close> define \<open>__hash__\<close> in their own
  class body as \<open>id(self)\<close>, and \<open>@dataclass\<close> leaves a \<open>__hash__\<close> written in the class
  body alone. Every other class is decorated with \<open>@dataclass(frozen=False)\<close> (so
  \<open>eq=True\<close>) and has no \<open>__hash__\<close> in its own body: the decorator then sets
  \<open>__hash__ = None\<close> on the class, and \<open>hash\<close> of an instance raises \<open>TypeError\<close>.
\<close>

definition py_hash :: "heap \<Rightarrow> addr \<Rightarrow> error + int" where
  "py_hash h a =
     (case h a of
        None \<Rightarrow> Inl DanglingReference
      | Some (ArchElement _) \<Rightarrow> Inr (py_id a)
      | Some (TurbofanArchitecture _) \<Rightarrow> Inr (py_id a)
      | Some _ \<Rightarrow> Inl TypeError)"

text \<open>
  \<open>TurbofanArchitecture.__eq__\<close>: \<open>return hash(self) == hash(other)\<close>.
\<close>

definition TurbofanArchitecture_eq :: "heap \<Rightarrow> addr \<Rightarrow> addr \<Rightarrow> error + bool" where
  "TurbofanArchitecture_eq h self other =
     (case py_hash h self of
        Inl e \<Rightarrow> Inl e
      | Inr hs \<Rightarrow> (case py_hash h other of Inl e \<Rightarrow> Inl e | Inr ho \<Rightarrow> Inr (hs = ho)))"

text \<open>
  The \<open>__eq__\<close> that \<open>@dataclass\<close> generates for a class that does not write its own
  (every class but \<open>TurbofanArchitecture\<close>): if the two objects are of the same class the
  tuples of their fields are compared, otherwise the answer is \<open>NotImplemented\<close> (here
  \<open>None\<close>). A tuple comparison goes through the fields in order and stops at the first
  pair that differs or raises; two items are equal if they are the same object or if
  \<open>==\<close> says so. \<open>all_eq\<close> is that left-to-right conjunction, \<open>ref_eq\<close> and \<open>refs_eq\<close>
  compare a field holding a reference and one holding a list of references, given the
  comparison \<open>eq\<close> of two objects.
\<close>

fun all_eq :: "(error + bool) list \<Rightarrow> error + bool" where
  "all_eq [] = Inr True"
| "all_eq (Inl e # rs) = Inl e"
| "all_eq (Inr False # rs) = Inr False"
| "all_eq (Inr True # rs) = all_eq rs"

fun ref_eq :: "(addr \<Rightarrow> addr \<Rightarrow> error + bool) \<Rightarrow> ref \<Rightarrow> ref \<Rightarrow> error + bool" where
  "ref_eq eq None None = Inr True"
| "ref_eq eq (Some a) (Some b) = (if a = b then Inr True else eq a b)"
| "ref_eq eq None (Some b) = Inr False"
| "ref_eq eq (Some a) None = Inr False"

fun refs_eq :: "(addr \<Rightarrow> addr \<Rightarrow> error + bool) \<Rightarrow> addr list option \<Rightarrow> addr list option
    \<Rightarrow> error + bool" where
  "refs_eq eq None None = Inr True"
| "refs_eq eq (Some xs) (Some ys) =
     (if length xs \<noteq> length ys then Inr False
      else all_eq (map (\<lambda>(a, b). if a = b then Inr True else eq a b) (zip xs ys)))"
| "refs_eq eq None (Some ys) = Inr False"
| "refs_eq eq (Some xs) None = Inr False"

fun dataclass_eq :: "(addr \<Rightarrow> addr \<Rightarrow> error + bool) \<Rightarrow> pyobj \<Rightarrow> pyobj \<Rightarrow> (error + bool) option"
  where
  "dataclass_eq eq (ArchElement n1) other =
     (case other of
        ArchElement n2 \<Rightarrow> Some (all_eq [Inr (n1 = n2)])
      | _ \<Rightarrow> None)"
| "dataclass_eq eq (Inlet n1 t1 m1 p1) other =
     (case other of
        Inlet n2 t2 m2 p2 \<Rightarrow>
          Some (all_eq [Inr (n1 = n2), ref_eq eq t1 t2, Inr (m1 = m2), Inr (p1 = p2)])
      | _ \<Rightarrow> None)"
| "dataclass_eq eq (Duct n1 t1 m1 p1 f1 s1 d1) other =
     (case other of
        Duct n2 t2 m2 p2 f2 s2 d2 \<Rightarrow>
          Some (all_eq [Inr (n1 = n2), ref_eq eq t1 t2, Inr (m1 = m2), Inr (p1 = p2),
                        Inr (f1 = f2), Inr (s1 = s2), Inr (d1 = d2)])
      | _ \<Rightarrow> None)"
| "dataclass_eq eq (Splitter n1 tc1 tb1 b1 cm1 bm1) other =
     (case other of
        Splitter n2 tc2 tb2 b2 cm2 bm2 \<Rightarrow>
          Some (all_eq [Inr (n1 = n2), ref_eq eq tc1 tc2, ref_eq eq tb1 tb2, Inr (b1 = b2),
                        Inr (cm1 = cm2), Inr (bm1 = bm2)])
      | _ \<Rightarrow> None)"
| "dataclass_eq eq (Mixer n1 sa1 sb1 t1 m1) other =
     (case other of
        Mixer n2 sa2 sb2 t2 m2 \<Rightarrow>
          Some (all_eq [Inr (n1 = n2), ref_eq eq sa1 sa2, ref_eq eq sb1 sb2, ref_eq eq t1 t2,
                        Inr (m1 = m2)])
      | _ \<Rightarrow> None)"
| "dataclass_eq eq (BleedInter n1 t1 tb1 m1 sw1 tp1 f1 bn1) other =
     (case other of
        BleedInter n2 t2 tb2 m2 sw2 tp2 f2 bn2 \<Rightarrow>
          Some (all_eq [Inr (n1 = n2), ref_eq eq t1 t2, Inr (tb1 = tb2), Inr (m1 = m2),
                        Inr (sw1 = sw2), Inr (tp1 = tp2), Inr (f1 = f2), Inr (bn1 = bn2)])
      | _ \<Rightarrow> None)"
| "dataclass_eq eq (BleedIntra n1 s1 t1 m1 sw1 sp1 swk1 tp1 f1 bn1) other =
     (case other of
        BleedIntra n2 s2 t2 m2 sw2 sp2 swk2 tp2 f2 bn2 \<Rightarrow>
          Some (all_eq [Inr (n1 = n2), ref_eq eq s1 s2, ref_eq eq t1 t2, Inr (m1 = m2),
                        Inr (sw1 = sw2), Inr (sp1 = sp2), Inr (swk1 = swk2), Inr (tp1 = tp2),
                        Inr (f1 = f2), Inr (bn1 = bn2)])
      | _ \<Rightarrow> None)"
| "dataclass_eq eq (Nozzle n1 t1 ty1 v1 f1 fo1) other =
     (case other of
        Nozzle n2 t2 ty2 v2 f2 fo2 \<Rightarrow>
          Some (all_eq [Inr (n1 = n2), ref_eq eq t1 t2, Inr (ty1 = ty2), Inr (v1 = v2),
                        Inr (f1 = f2), Inr (fo1 = fo2)])
      | _ \<Rightarrow> None)"
| "dataclass_eq eq (BaseTurboMachinery n1 sh1) other =
     (case other of
        BaseTurboMachinery n2 sh2 \<Rightarrow> Some (all_eq [Inr (n1 = n2)])
      | _ \<Rightarrow> None)"
| "dataclass_eq eq (Compressor n1 t1 mp1 m1 pr1 e1 sh1) other =
     (case other of
        Compressor n2 t2 mp2 m2 pr2 e2 sh2 \<Rightarrow>
          Some (all_eq [Inr (n1 = n2), ref_eq eq t1 t2, Inr (mp1 = mp2), Inr (m1 = m2),
                        Inr (pr1 = pr2), Inr (e1 = e2)])
      | _ \<Rightarrow> None)"
| "dataclass_eq eq (Burner n1 t1 fu1 m1 p1) other =
     (case other of
        Burner n2 t2 fu2 m2 p2 \<Rightarrow>
          Some (all_eq [Inr (n1 = n2), ref_eq eq t1 t2, Inr (fu1 = fu2), Inr (m1 = m2),
                        Inr (p1 = p2)])
      | _ \<Rightarrow> None)"
| "dataclass_eq eq (Turbine n1 t1 mp1 m1 e1 sh1) other =
     (case other of
        Turbine n2 t2 mp2 m2 e2 sh2 \<Rightarrow>
          Some (all_eq [Inr (n1 = n2), ref_eq eq t1 t2, Inr (mp1 = mp2), Inr (m1 = m2),
                        Inr (e1 = e2)])
      | _ \<Rightarrow> None)"
| "dataclass_eq eq (Shaft n1 c1 r1 p1) other =
     (case other of
        Shaft n2 c2 r2 p2 \<Rightarrow>
          Some (all_eq [Inr (n1 = n2), refs_eq eq c1 c2, Inr (r1 = r2), Inr (p1 = p2)])
      | _ \<Rightarrow> None)"
| "dataclass_eq eq (TurbofanArchitecture es) other = None"

text \<open>
  \<open>a == b\<close> for two objects of the heap. The method of the left operand is asked first;
  when it answers \<open>NotImplemented\<close> (the classes differ) the method of the right operand is
  asked with the operands swapped, which for a generated \<open>__eq__\<close> answers
  \<open>NotImplemented\<close> again; when both do, Python compares identities. The first argument
  bounds the depth of nested comparisons, as the interpreter's recursion limit does.
\<close>

fun is_TurbofanArchitecture :: "pyobj \<Rightarrow> bool" where
  "is_TurbofanArchitecture (TurbofanArchitecture es) = True"
| "is_TurbofanArchitecture _ = False"

primrec py_eq :: "nat \<Rightarrow> heap \<Rightarrow> addr \<Rightarrow> addr \<Rightarrow> error + bool" where
  "py_eq 0 = (\<lambda>h a b. Inl RecursionError)"
| "py_eq (Suc n) = (\<lambda>h a b.
     (case h a of
        None \<Rightarrow> Inl DanglingReference
      | Some x \<Rightarrow>
          (case h b of
             None \<Rightarrow> Inl DanglingReference
           | Some y \<Rightarrow>
               if is_TurbofanArchitecture x then TurbofanArchitecture_eq h a b
               else (case dataclass_eq (py_eq n h) x y of
                       Some r \<Rightarrow> r
                     | None \<Rightarrow>
                         if is_TurbofanArchitecture y then TurbofanArchitecture_eq h b a
                         else Inr (a = b)))))"

section \<open>The solver containers\<close>

text \<open>
  The cycle and the multi-point cycle belong to the external solver (pyCycle, OpenMDAO).
  The build phases only call methods on them, so a container is modelled by the sequence
  of calls made on it so far, each call with the arguments the source passes. The
  thermodynamic data is an opaque token handed through to the module constructors.
\<close>

type_synonym thermo = nat

datatype mix = AIR_MIX | AIR_FUEL_MIX | AIR_ELEMENTS | AIR_FUEL_ELEMENTS

datatype unit_tag = RPM

text \<open>
  The modules of \<open>pyc\<close> with their keyword arguments in the order they are written in the
  source; \<open>map_data\<close> is the name under which \<open>getattr(pyc, self.map.value)\<close> looks the map
  up.
\<close>

datatype pyc_element =
    pyc_Inlet bool thermo mix
  | pyc_Duct thermo mix bool bool
  | pyc_Splitter bool thermo mix
  | pyc_Mixer bool thermo mix mix
  | pyc_BleedOut thermo mix bool "string list"
  | pyc_Nozzle string string thermo mix
  | pyc_Compressor string bool thermo mix
  | pyc_Combustor bool thermo mix mix string
  | pyc_Turbine string bool thermo mix
  | pyc_Shaft nat

text \<open>The keyword argument a flow connection is made with, if any.\<close>

datatype flow_kw = no_kw | connect_w_False | connect_stat_False

text \<open>
  \<^item> \<open>pyc_add_element name el promotes_inputs\<close>: \<open>cycle.pyc_add_element\<close>;
  \<^item> \<open>el_set_input_defaults name var val\<close>: \<open>el.set_input_defaults(var, val)\<close> on the module
    just registered under \<open>name\<close>;
  \<^item> \<open>cycle_set_input_defaults var val units\<close>: \<open>cycle.set_input_defaults\<close>;
  \<^item> \<open>pyc_connect_flow out in kw\<close>: \<open>cycle.pyc_connect_flow\<close>;
  \<^item> \<open>cycle_connect src tgt\<close>: \<open>cycle.connect\<close>.
\<close>

datatype call =
    pyc_add_element string pyc_element "(string \<times> string) list"
  | el_set_input_defaults string string real
  | cycle_set_input_defaults string real unit_tag
  | pyc_connect_flow string string flow_kw
  | cycle_connect string string

datatype mp_call =
    pyc_add_cycle_param string real
  | pyc_connect_des_od string string

type_synonym cycle = "call list"
type_synonym mp_cycle = "mp_call list"

section \<open>Attribute access and string formatting\<close>

text \<open>\<open>obj.name\<close>: every class but \<open>TurbofanArchitecture\<close> has the field.\<close>

fun attr_name :: "pyobj \<Rightarrow> string option" where
  "attr_name (ArchElement n) = Some n"
| "attr_name (Inlet n t m p) = Some n"
| "attr_name (Duct n t m p f s d) = Some n"
| "attr_name (Splitter n tc tb b cm bm) = Some n"
| "attr_name (Mixer n sa sb t m) = Some n"
| "attr_name (BleedInter n t tb m sw tp f bn) = Some n"
| "attr_name (BleedIntra n s t m sw sp swk tp f bn) = Some n"
| "attr_name (Nozzle n t ty v f fo) = Some n"
| "attr_name (BaseTurboMachinery n sh) = Some n"
| "attr_name (Compressor n t mp m pr e sh) = Some n"
| "attr_name (Burner n t fu m p) = Some n"
| "attr_name (Turbine n t mp m e sh) = Some n"
| "attr_name (Shaft n c r p) = Some n"
| "attr_name (TurbofanArchitecture es) = None"

text \<open>\<open>r.name\<close> for a reference \<open>r\<close>; \<open>None.name\<close> raises \<open>AttributeError\<close>.\<close>

definition getattr_name :: "heap \<Rightarrow> ref \<Rightarrow> error + string" where
  "getattr_name h r =
     (case r of
        None \<Rightarrow> Inl AttributeError
      | Some a \<Rightarrow>
          (case h a of
             None \<Rightarrow> Inl DanglingReference
           | Some obj \<Rightarrow> (case attr_name obj of None \<Rightarrow> Inl AttributeError | Some n \<Rightarrow> Inr n)))"

text \<open>\<open>'%s.%s' % (a, b)\<close>, \<open>'%s'\<close> of an optional string, and \<open>'%d'\<close> of a position.\<close>

definition dotted :: "string \<Rightarrow> string \<Rightarrow> string" where
  "dotted a b = a @ ''.'' @ b"

fun str_opt :: "string option \<Rightarrow> string" where
  "str_opt None = ''None''"
| "str_opt (Some s) = s"

definition digit_char :: "nat \<Rightarrow> char" where
  "digit_char d = char_of (48 + d)"

fun str_nat :: "nat \<Rightarrow> string" where
  "str_nat n = (if n < 10 then [digit_char n] else str_nat (n div 10) @ [digit_char (n mod 10)])"

section \<open>Construction\<close>

text \<open>
  \<open>self\<close> is the address at which the interpreter allocates the new object. The generated
  \<open>__init__\<close> stores the fields and then calls \<open>__post_init__\<close>;
  \<open>BaseTurboMachinery.__post_init__\<close> sets \<open>__shaft\<close> to \<open>None\<close>.
\<close>

definition Compressor_init ::
  "heap \<Rightarrow> addr \<Rightarrow> string \<Rightarrow> ref \<Rightarrow> CompressorMap \<Rightarrow> real \<Rightarrow> real \<Rightarrow> real \<Rightarrow> heap" where
  "Compressor_init h self name target cmap mach pr eff =
     h(self \<mapsto> Compressor name target cmap mach pr eff None)"

definition Turbine_init ::
  "heap \<Rightarrow> addr \<Rightarrow> string \<Rightarrow> ref \<Rightarrow> TurbineMap \<Rightarrow> real \<Rightarrow> real \<Rightarrow> heap" where
  "Turbine_init h self name target tmap mach eff =
     h(self \<mapsto> Turbine name target tmap mach eff None)"

text \<open>
  The property \<open>shaft\<close> of \<open>BaseTurboMachinery\<close>: the getter and the setter. An object of
  another class has no attribute \<open>shaft\<close> to read. \<open>set_shaft\<close> is only ever reached after
  \<open>get_shaft\<close> has succeeded on the same object, so it leaves other objects alone.
\<close>

definition get_shaft :: "heap \<Rightarrow> addr \<Rightarrow> error + ref" where
  "get_shaft h conn =
     (case h conn of
        None \<Rightarrow> Inl DanglingReference
      | Some (BaseTurboMachinery n sh) \<Rightarrow> Inr sh
      | Some (Compressor n t mp m pr e sh) \<Rightarrow> Inr sh
      | Some (Turbine n t mp m e sh) \<Rightarrow> Inr sh
      | Some _ \<Rightarrow> Inl AttributeError)"

definition set_shaft :: "heap \<Rightarrow> addr \<Rightarrow> ref \<Rightarrow> heap" where
  "set_shaft h conn shaft =
     (case h conn of
        Some (BaseTurboMachinery n sh) \<Rightarrow> h(conn \<mapsto> BaseTurboMachinery n shaft)
      | Some (Compressor n t mp m pr e sh) \<Rightarrow> h(conn \<mapsto> Compressor n t mp m pr e shaft)
      | Some (Turbine n t mp m e sh) \<Rightarrow> h(conn \<mapsto> Turbine n t mp m e shaft)
      | _ \<Rightarrow> h)"

text \<open>
  \<open>Shaft.__post_init__\<close>: the loop over \<open>self.connections\<close>. An exception leaves the heap
  as the iterations before it made it.
\<close>

fun Shaft_bind :: "heap \<Rightarrow> addr \<Rightarrow> addr list \<Rightarrow> (error + unit) \<times> heap" where
  "Shaft_bind h self [] = (Inr (), h)"
| "Shaft_bind h self (conn # conns) =
     (case get_shaft h conn of
        Inl e \<Rightarrow> (Inl e, h)
      | Inr (Some s) \<Rightarrow> (Inl (ValueError_ShaftAlreadySet conn), h)
      | Inr None \<Rightarrow> Shaft_bind (set_shaft h conn (Some self)) self conns)"

definition Shaft_post_init :: "heap \<Rightarrow> addr \<Rightarrow> (error + unit) \<times> heap" where
  "Shaft_post_init h self =
     (case h self of
        Some (Shaft n (Some conns) r p) \<Rightarrow> Shaft_bind h self conns
      | Some (Shaft n None r p) \<Rightarrow> (Inl TypeError, h)
      | Some _ \<Rightarrow> (Inl AttributeError, h)
      | None \<Rightarrow> (Inl DanglingReference, h))"

definition Shaft_init ::
  "heap \<Rightarrow> addr \<Rightarrow> string \<Rightarrow> addr list option \<Rightarrow> real \<Rightarrow> real \<Rightarrow> (error + unit) \<times> heap" where
  "Shaft_init h self name connections rpm_design power_loss =
     Shaft_post_init (h(self \<mapsto> Shaft name connections rpm_design power_loss)) self"

section \<open>The build phases\<close>

subsection \<open>Realize: \<open>add_element\<close>\<close>

text \<open>
  One equation per class, as the method is dispatched on the class of \<open>self\<close>. The result
  is the returned module (\<open>None\<close> where the method ends without \<open>return\<close>) or the exception,
  together with the cycle as the calls made before left it. The arguments of a call are
  evaluated before the call is made, so a failing \<open>self.shaft.name\<close> registers nothing.
  \<open>TurbofanArchitecture\<close> has none of the phase methods.
\<close>

fun add_element ::
  "heap \<Rightarrow> pyobj \<Rightarrow> cycle \<Rightarrow> thermo \<Rightarrow> bool \<Rightarrow> (error + pyc_element option) \<times> cycle" where
  "add_element h (ArchElement n) cycle thermo_data design = (Inl NotImplementedError, cycle)"
| "add_element h (Inlet n t m p) cycle thermo_data design =
     (let el = pyc_Inlet design thermo_data AIR_ELEMENTS;
          cycle1 = cycle @ [pyc_add_element n el []]
      in (Inr (Some el), if design then cycle1 @ [el_set_input_defaults n ''MN'' m] else cycle1))"
| "add_element h (Duct n t m p f s d) cycle thermo_data design =
     (let elements = (if f then AIR_FUEL_ELEMENTS else AIR_ELEMENTS);
          el = pyc_Duct thermo_data elements s design
      in (Inr None, cycle @ [pyc_add_element n el []]))"
| "add_element h (Splitter n tc tb b cm bm) cycle thermo_data design =
     (let el = pyc_Splitter design thermo_data AIR_ELEMENTS;
          cycle1 = cycle @ [pyc_add_element n el []]
      in (Inr (Some el),
          if design
          then cycle1 @ [el_set_input_defaults n ''BPR'' b, el_set_input_defaults n ''MN1'' cm,
                         el_set_input_defaults n ''MN2'' bm]
          else cycle1))"
| "add_element h (Mixer n sa sb t m) cycle thermo_data design =
     (let el = pyc_Mixer design thermo_data AIR_FUEL_ELEMENTS AIR_ELEMENTS
      in (Inr (Some el), cycle @ [pyc_add_element n el []]))"
| "add_element h (BleedInter n t tb m sw tp f bn) cycle thermo_data design =
     (let elements = (if f then AIR_FUEL_ELEMENTS else AIR_ELEMENTS);
          el = pyc_BleedOut thermo_data elements design bn
      in (Inr None, cycle @ [pyc_add_element n el []]))"
| "add_element h (BleedIntra n s t m sw sp swk tp f bn) cycle thermo_data design =
     (Inr None, cycle)"
| "add_element h (Nozzle n t ty v f fo) cycle thermo_data design =
     (let elements = (if f then AIR_FUEL_ELEMENTS else AIR_ELEMENTS);
          el = pyc_Nozzle (NozzleType_value ty) ''Cv'' thermo_data elements
      in (Inr (Some el), cycle @ [pyc_add_element n el []]))"
| "add_element h (BaseTurboMachinery n sh) cycle thermo_data design =
     (Inl NotImplementedError, cycle)"
| "add_element h (Compressor n t mp m pr e sh) cycle thermo_data design =
     (if sh = None then (Inl ValueError_NotConnectedToShaft, cycle)
      else
        (let el = pyc_Compressor (CompressorMap_value mp) design thermo_data AIR_MIX
         in (case getattr_name h sh of
               Inl err \<Rightarrow> (Inl err, cycle)
             | Inr shaft_name \<Rightarrow>
                 (let cycle1 = cycle @ [pyc_add_element n el [(''Nmech'', shaft_name @ ''_Nmech'')]]
                  in (Inr (Some el),
                      if design then cycle1 @ [el_set_input_defaults n ''MN'' m] else cycle1)))))"
| "add_element h (Burner n t fu m p) cycle thermo_data design =
     (let el = pyc_Combustor design thermo_data AIR_MIX AIR_FUEL_MIX (FuelType_value fu);
          cycle1 = cycle @ [pyc_add_element n el []]
      in (Inr (Some el), if design then cycle1 @ [el_set_input_defaults n ''MN'' m] else cycle1))"
| "add_element h (Turbine n t mp m e sh) cycle thermo_data design =
     (if sh = None then (Inl ValueError_NotConnectedToShaft, cycle)
      else
        (let el = pyc_Turbine (TurbineMap_value mp) design thermo_data AIR_FUEL_MIX
         in (case getattr_name h sh of
               Inl err \<Rightarrow> (Inl err, cycle)
             | Inr shaft_name \<Rightarrow>
                 (let cycle1 = cycle @ [pyc_add_element n el [(''Nmech'', shaft_name @ ''_Nmech'')]]
                  in (Inr (Some el),
                      if design then cycle1 @ [el_set_input_defaults n ''MN'' m] else cycle1)))))"
| "add_element h (Shaft n c r p) cycle thermo_data design =
     (case c of
        None \<Rightarrow> (Inl ValueError_ShaftTooFewConnections, cycle)
      | Some connections \<Rightarrow>
          if length connections < 2 then (Inl ValueError_ShaftTooFewConnections, cycle)
          else
            (let el = pyc_Shaft (length connections);
                 cycle1 = cycle @ [pyc_add_element n el [(''Nmech'', n @ ''_Nmech'')]]
             in (Inr (Some el),
                 if design then cycle1 @ [cycle_set_input_defaults (n @ ''_Nmech'') r RPM]
                 else cycle1)))"
| "add_element h (TurbofanArchitecture es) cycle thermo_data design = (Inl AttributeError, cycle)"

subsection \<open>Wire: \<open>connect\<close>\<close>

text \<open>
  \<open>ArchElement._connect_flow_target\<close>, with the name of \<open>self\<close> and the two port names
  (defaults \<open>'Fl_O'\<close> and \<open>'Fl_I'\<close>).
\<close>

definition connect_flow_target ::
  "heap \<Rightarrow> string \<Rightarrow> cycle \<Rightarrow> ref \<Rightarrow> string \<Rightarrow> string \<Rightarrow> (error + unit) \<times> cycle" where
  "connect_flow_target h self_name cycle target out_flow in_flow =
     (case target of
        None \<Rightarrow> (Inr (), cycle)
      | Some t \<Rightarrow>
          (case getattr_name h target of
             Inl err \<Rightarrow> (Inl err, cycle)
           | Inr target_name \<Rightarrow>
               (Inr (), cycle @ [pyc_connect_flow (dotted self_name out_flow)
                                   (dotted target_name in_flow) no_kw])))"

text \<open>The loop of \<open>BleedInter.connect\<close> over the bleed names.\<close>

fun BleedInter_connect_bleeds :: "string \<Rightarrow> string option \<Rightarrow> cycle \<Rightarrow> string list \<Rightarrow> cycle" where
  "BleedInter_connect_bleeds n tb cycle [] = cycle"
| "BleedInter_connect_bleeds n tb cycle (bleed_name # bns) =
     BleedInter_connect_bleeds n tb
       (cycle @ [pyc_connect_flow (dotted n bleed_name) (dotted (str_opt tb) bleed_name)
                   connect_stat_False]) bns"

text \<open>
  The loop of \<open>BleedIntra.connect\<close>: each iteration reads \<open>self.source.name\<close> and
  \<open>self.target.name\<close>.
\<close>

fun BleedIntra_connect_bleeds ::
  "heap \<Rightarrow> ref \<Rightarrow> ref \<Rightarrow> cycle \<Rightarrow> string list \<Rightarrow> (error + unit) \<times> cycle" where
  "BleedIntra_connect_bleeds h s t cycle [] = (Inr (), cycle)"
| "BleedIntra_connect_bleeds h s t cycle (bleed_name # bns) =
     (case getattr_name h s of
        Inl err \<Rightarrow> (Inl err, cycle)
      | Inr source_name \<Rightarrow>
          (case getattr_name h t of
             Inl err \<Rightarrow> (Inl err, cycle)
           | Inr target_name \<Rightarrow>
               BleedIntra_connect_bleeds h s t
                 (cycle @ [pyc_connect_flow (dotted source_name bleed_name)
                             (dotted target_name bleed_name) connect_stat_False]) bns))"

text \<open>
  The loop of \<open>Shaft.connect\<close>: \<open>enumerate(self.connections)\<close>, the second argument being
  the position reached.
\<close>

fun Shaft_connect_torques ::
  "heap \<Rightarrow> string \<Rightarrow> nat \<Rightarrow> cycle \<Rightarrow> addr list \<Rightarrow> (error + unit) \<times> cycle" where
  "Shaft_connect_torques h n i cycle [] = (Inr (), cycle)"
| "Shaft_connect_torques h n i cycle (element # es) =
     (case getattr_name h (Some element) of
        Inl err \<Rightarrow> (Inl err, cycle)
      | Inr element_name \<Rightarrow>
          Shaft_connect_torques h n (Suc i)
            (cycle @ [cycle_connect (element_name @ ''.trq'') (dotted n (''trq_'' @ str_nat i))])
            es)"

fun connect :: "heap \<Rightarrow> pyobj \<Rightarrow> cycle \<Rightarrow> (error + unit) \<times> cycle" where
  "connect h (ArchElement n) cycle = (Inl NotImplementedError, cycle)"
| "connect h (Inlet n t m p) cycle =
     connect_flow_target h n
       (cycle @ [pyc_connect_flow ''fc.Fl_O'' (n @ ''.Fl_I'') connect_w_False]) t ''Fl_O'' ''Fl_I''"
| "connect h (Duct n t m p f s d) cycle = connect_flow_target h n cycle t ''Fl_O'' ''Fl_I''"
| "connect h (Splitter n tc tb b cm bm) cycle =
     (case connect_flow_target h n cycle tc ''Fl_O1'' ''Fl_I'' of
        (Inl err, cycle1) \<Rightarrow> (Inl err, cycle1)
      | (Inr u, cycle1) \<Rightarrow> connect_flow_target h n cycle1 tb ''Fl_O2'' ''Fl_I'')"
| "connect h (Mixer n sa sb t m) cycle = connect_flow_target h n cycle t ''Fl_O'' ''Fl_I''"
| "connect h (BleedInter n t tb m sw tp f bn) cycle =
     (if t = None
      then (Inr (), cycle @ [pyc_connect_flow (n @ ''.Fl_O'') ''fc.Fl_I'' connect_w_False])
      else
        (case connect_flow_target h n cycle t ''Fl_O'' ''Fl_I'' of
           (Inl err, cycle1) \<Rightarrow> (Inl err, cycle1)
         | (Inr u, cycle1) \<Rightarrow> (Inr (), BleedInter_connect_bleeds n tb cycle1 bn)))"
| "connect h (BleedIntra n s t m sw sp swk tp f bn) cycle =
     (if t = None
      then (Inr (), cycle @ [pyc_connect_flow (n @ ''.Fl_O'') ''fc.Fl_I'' connect_w_False])
      else BleedIntra_connect_bleeds h s t cycle bn)"
| "connect h (Nozzle n t ty v f fo) cycle =
     (if t = None
      then (Inr (), cycle @ [cycle_connect ''fc.Fl_O:stat:P'' (n @ ''.Ps_exhaust'')])
      else connect_flow_target h n cycle t ''Fl_O'' (str_opt fo))"
| "connect h (BaseTurboMachinery n sh) cycle = (Inl NotImplementedError, cycle)"
| "connect h (Compressor n t mp m pr e sh) cycle = connect_flow_target h n cycle t ''Fl_O'' ''Fl_I''"
| "connect h (Burner n t fu m p) cycle = connect_flow_target h n cycle t ''Fl_O'' ''Fl_I''"
| "connect h (Turbine n t mp m e sh) cycle = connect_flow_target h n cycle t ''Fl_O'' ''Fl_I''"
| "connect h (Shaft n c r p) cycle =
     (case c of
        None \<Rightarrow> (Inl TypeError, cycle)
      | Some connections \<Rightarrow> Shaft_connect_torques h n 0 cycle connections)"
| "connect h (TurbofanArchitecture es) cycle = (Inl AttributeError, cycle)"

subsection \<open>DeclareParameters: \<open>add_cycle_params\<close>\<close>

text \<open>The loops of \<open>BleedInter.add_cycle_params\<close> and \<open>BleedIntra.add_cycle_params\<close>.\<close>

fun BleedInter_bleed_params ::
  "string \<Rightarrow> string option \<Rightarrow> real \<Rightarrow> real \<Rightarrow> mp_cycle \<Rightarrow> string list \<Rightarrow> mp_cycle" where
  "BleedInter_bleed_params n tb sw tp mp [] = mp"
| "BleedInter_bleed_params n tb sw tp mp (bleed_name # bns) =
     BleedInter_bleed_params n tb sw tp
       (mp @ [pyc_add_cycle_param (dotted n bleed_name @ '':frac_W'') sw,
              pyc_add_cycle_param (dotted (str_opt tb) bleed_name @ '':frac_P'') tp]) bns"

fun BleedIntra_bleed_params ::
  "heap \<Rightarrow> ref \<Rightarrow> ref \<Rightarrow> real \<Rightarrow> real \<Rightarrow> real \<Rightarrow> real \<Rightarrow> mp_cycle \<Rightarrow> string list
   \<Rightarrow> (error + unit) \<times> mp_cycle" where
  "BleedIntra_bleed_params h s t sw sp swk tp mp [] = (Inr (), mp)"
| "BleedIntra_bleed_params h s t sw sp swk tp mp (bleed_name # bns) =
     (case getattr_name h s of
        Inl err \<Rightarrow> (Inl err, mp)
      | Inr source_name \<Rightarrow>
          (let mp3 = mp @ [pyc_add_cycle_param (dotted source_name bleed_name @ '':frac_W'') sw,
                           pyc_add_cycle_param (dotted source_name bleed_name @ '':frac_P'') sp,
                           pyc_add_cycle_param (dotted source_name bleed_name @ '':frac_work'') swk]
           in (case getattr_name h t of
                 Inl err \<Rightarrow> (Inl err, mp3)
               | Inr target_name \<Rightarrow>
                   BleedIntra_bleed_params h s t sw sp swk tp
                     (mp3 @ [pyc_add_cycle_param (dotted target_name bleed_name @ '':frac_P'') tp])
                     bns)))"

fun add_cycle_params :: "heap \<Rightarrow> pyobj \<Rightarrow> mp_cycle \<Rightarrow> (error + unit) \<times> mp_cycle" where
  "add_cycle_params h (Inlet n t m p) mp =
     (Inr (), mp @ [pyc_add_cycle_param (n @ ''.ram_recovery'') p])"
| "add_cycle_params h (BleedInter n t tb m sw tp f bn) mp =
     (if t = None then (Inr (), mp) else (Inr (), BleedInter_bleed_params n tb sw tp mp bn))"
| "add_cycle_params h (BleedIntra n s t m sw sp swk tp f bn) mp =
     (if t = None then (Inr (), mp) else BleedIntra_bleed_params h s t sw sp swk tp mp bn)"
| "add_cycle_params h (Nozzle n t ty v f fo) mp =
     (Inr (), mp @ [pyc_add_cycle_param (n @ ''.Cv'') v])"
| "add_cycle_params h (Burner n t fu m p) mp =
     (Inr (), mp @ [pyc_add_cycle_param (n @ ''.dPqP'') p])"
| "add_cycle_params h (Shaft n c r p) mp =
     (Inr (), mp @ [pyc_add_cycle_param (n @ ''.fracLoss'') p])"
| "add_cycle_params h (TurbofanArchitecture es) mp = (Inl AttributeError, mp)"
| "add_cycle_params h other mp = (Inr (), mp)"

subsection \<open>LinkDesignOffDesign: \<open>connect_des_od\<close>\<close>

text \<open>The loop over the four scale factors in \<open>Compressor\<close> and \<open>Turbine\<close>.\<close>

fun connect_params :: "string \<Rightarrow> mp_cycle \<Rightarrow> string list \<Rightarrow> mp_cycle" where
  "connect_params n mp [] = mp"
| "connect_params n mp (param # ps) =
     connect_params n (mp @ [pyc_connect_des_od (dotted n param) (dotted n param)]) ps"

fun connect_des_od :: "pyobj \<Rightarrow> mp_cycle \<Rightarrow> (error + unit) \<times> mp_cycle" where
  "connect_des_od (ArchElement n) mp = (Inl NotImplementedError, mp)"
| "connect_des_od (Inlet n t m p) mp =
     (Inr (), mp @ [pyc_connect_des_od (n @ ''.Fl_O:stat:area'') (n @ ''.area'')])"
| "connect_des_od (Duct n t m p f s d) mp =
     (Inr (), mp @ [pyc_connect_des_od (n @ ''.Fl_O:stat:area'') (n @ ''.area'')])"
| "connect_des_od (Splitter n tc tb b cm bm) mp =
     (Inr (), mp @ [pyc_connect_des_od (n @ ''.Fl_O1:stat:area'') (n @ ''.area1''),
                    pyc_connect_des_od (n @ ''.Fl_O2:stat:area'') (n @ ''.area2'')])"
| "connect_des_od (Mixer n sa sb t m) mp =
     (Inr (), mp @ [pyc_connect_des_od (n @ ''.Fl_O:stat:area'') (n @ ''.area1''),
                    pyc_connect_des_od (n @ ''.Fl_I1_calc:stat:area'')
                      (n @ ''Fl_I1_stat_calc.area'')])"
| "connect_des_od (BleedInter n t tb m sw tp f bn) mp =
     (Inr (), mp @ [pyc_connect_des_od (n @ ''.Fl_O:stat:area'') (n @ ''.area'')])"
| "connect_des_od (BleedIntra n s t m sw sp swk tp f bn) mp = (Inr (), mp)"
| "connect_des_od (Nozzle n t ty v f fo) mp = (Inr (), mp)"
| "connect_des_od (BaseTurboMachinery n sh) mp = (Inl NotImplementedError, mp)"
| "connect_des_od (Compressor n t cmap m pr e sh) mp =
     (Inr (), connect_params n mp [''s_PR'', ''s_Wc'', ''s_eff'', ''s_Nc'']
              @ [pyc_connect_des_od (n @ ''.Fl_O:stat:area'') (n @ ''.area'')])"
| "connect_des_od (Burner n t fu m p) mp =
     (Inr (), mp @ [pyc_connect_des_od (n @ ''.Fl_O:stat:area'') (n @ ''.area'')])"
| "connect_des_od (Turbine n t tmap m e sh) mp =
     (Inr (), connect_params n mp [''s_PR'', ''s_Wp'', ''s_eff'', ''s_Np'']
              @ [pyc_connect_des_od (n @ ''.Fl_O:stat:area'') (n @ ''.area'')])"
| "connect_des_od (Shaft n c r p) mp = (Inr (), mp)"
| "connect_des_od (TurbofanArchitecture es) mp = (Inl AttributeError, mp)"

section \<open>Example heaps\<close>

text \<open>
  Concrete object graphs on which the theorems below are instantiated: two inlets built
  with the same arguments; two architectures over the same element list; a high-pressure
  spool (compressor 1 and turbine 2 bound to shaft 3) beside an unbound turbine 4 and an
  unbound compressor 5; the heap that the failed construction of a second shaft at
  address 6 over the connections 5 and 1 leaves behind; and a compressor and a turbine
  for a bleed to run between.
\<close>

definition heap_two_inlets :: heap where
  "heap_two_inlets = [1 \<mapsto> Inlet ''inlet'' None 0.6 1, 2 \<mapsto> Inlet ''inlet'' None 0.6 1]"

definition heap_two_archs :: heap where
  "heap_two_archs = [1 \<mapsto> Inlet ''inlet'' None 0.6 1, 10 \<mapsto> TurbofanArchitecture [1],
                     11 \<mapsto> TurbofanArchitecture [1]]"

definition heap_hp_spool :: heap where
  "heap_hp_spool =
     [1 \<mapsto> Compressor ''hpc'' None AXI_5 0.01 5 1 (Some 3),
      2 \<mapsto> Turbine ''hpt'' None LPT_2269 0.4 1 (Some 3),
      3 \<mapsto> Shaft ''hp_shaft'' (Some [1, 2]) 10000 0,
      4 \<mapsto> Turbine ''lpt'' None LPT_2269 0.4 1 None,
      5 \<mapsto> Compressor ''lpc'' None AXI_5 0.01 5 1 None]"

definition heap_lp_failed :: heap where
  "heap_lp_failed =
     set_shaft (heap_hp_spool(6 \<mapsto> Shaft ''lp_shaft'' (Some [5, 1]) 10000 0)) 5 (Some 6)"

definition heap_bleed :: heap where
  "heap_bleed =
     [1 \<mapsto> Compressor ''hpc'' None AXI_5 0.01 5 1 None,
      2 \<mapsto> Turbine ''hpt'' None LPT_2269 0.4 1 None]"

section \<open>Properties of the shaft binding loop\<close>

lemma get_shaft_set_shaft_same:
  "get_shaft h c = Inr r \<Longrightarrow> get_shaft (set_shaft h c r') c = Inr r'"
  by (auto simp: get_shaft_def set_shaft_def split: option.splits pyobj.splits)

lemma get_shaft_set_shaft_other:
  "x \<noteq> c \<Longrightarrow> get_shaft (set_shaft h c r') x = get_shaft h x"
  by (auto simp: get_shaft_def set_shaft_def split: option.splits pyobj.splits)

lemma Shaft_bind_keeps_bound:
  "Shaft_bind h self conns = (r, h') \<Longrightarrow> get_shaft h y = Inr (Some s) \<Longrightarrow>
   get_shaft h' y = Inr (Some s)"
proof (induction conns arbitrary: h)
  case Nil
  then show ?case by simp
next
  case (Cons conn conns)
  show ?case
  proof (cases "get_shaft h conn")
    case (Inl e)
    with Cons.prems show ?thesis by simp
  next
    case (Inr sh)
    show ?thesis
    proof (cases sh)
      case None
      with Inr Cons.prems have ne: "y \<noteq> conn" by auto
      from None Inr Cons.prems
      have b: "Shaft_bind (set_shaft h conn (Some self)) self conns = (r, h')" by simp
      from ne Cons.prems have "get_shaft (set_shaft h conn (Some self)) y = Inr (Some s)"
        by (simp add: get_shaft_set_shaft_other)
      with Cons.IH [OF b] show ?thesis .
    next
      case (Some s')
      with Inr Cons.prems show ?thesis by simp
    qed
  qed
qed

lemma Shaft_bind_ok_bound:
  "Shaft_bind h self conns = (Inr (), h') \<Longrightarrow> x \<in> set conns \<Longrightarrow>
   get_shaft h x = Inr None \<and> get_shaft h' x = Inr (Some self)"
proof (induction conns arbitrary: h)
  case Nil
  then show ?case by simp
next
  case (Cons conn conns)
  from Cons.prems(1) have g: "get_shaft h conn = Inr None"
    by (auto split: sum.splits option.splits)
  with Cons.prems(1)
  have b: "Shaft_bind (set_shaft h conn (Some self)) self conns = (Inr (), h')" by simp
  have gc: "get_shaft (set_shaft h conn (Some self)) conn = Inr (Some self)"
    using g by (rule get_shaft_set_shaft_same)
  show ?case
  proof (cases "x = conn")
    case True
    with g Shaft_bind_keeps_bound [OF b gc] show ?thesis by simp
  next
    case False
    with Cons.prems(2) have "x \<in> set conns" by simp
    from Cons.IH [OF b this] False show ?thesis
      by (simp add: get_shaft_set_shaft_other)
  qed
qed

lemma get_shaft_error:
  "get_shaft h x = Inl e \<Longrightarrow> e = DanglingReference \<or> e = AttributeError"
  by (auto simp: get_shaft_def split: option.splits pyobj.splits)

lemma Shaft_bind_raise_position:
  "Shaft_bind h self conns = (Inl (ValueError_ShaftAlreadySet c), h') \<Longrightarrow>
   \<exists>i<length conns. conns ! i = c \<and> Shaft_bind h self (take i conns) = (Inr (), h')
      \<and> (\<exists>s. get_shaft h' c = Inr (Some s))"
proof (induction conns arbitrary: h)
  case Nil
  then show ?case by simp
next
  case (Cons conn conns)
  show ?case
  proof (cases "get_shaft h conn")
    case (Inl e)
    with Cons.prems get_shaft_error [OF Inl] show ?thesis by auto
  next
    case (Inr sh)
    show ?thesis
    proof (cases sh)
      case None
      with Inr Cons.prems
      have b: "Shaft_bind (set_shaft h conn (Some self)) self conns
                 = (Inl (ValueError_ShaftAlreadySet c), h')" by simp
      from Cons.IH [OF b] obtain i where i: "i < length conns" "conns ! i = c"
        "Shaft_bind (set_shaft h conn (Some self)) self (take i conns) = (Inr (), h')"
        "\<exists>s. get_shaft h' c = Inr (Some s)" by blast
      have "Suc i < length (conn # conns)" using i by simp
      moreover have "(conn # conns) ! Suc i = c" using i by simp
      moreover have "Shaft_bind h self (take (Suc i) (conn # conns)) = (Inr (), h')"
        using i None Inr by simp
      ultimately show ?thesis using i(4) by blast
    next
      case (Some s')
      with Inr Cons.prems have "c = conn" "h' = h" by auto
      with Some Inr have "0 < length (conn # conns) \<and> (conn # conns) ! 0 = c
         \<and> Shaft_bind h self (take 0 (conn # conns)) = (Inr (), h')
         \<and> (\<exists>s. get_shaft h' c = Inr (Some s))" by simp
      then show ?thesis by blast
    qed
  qed
qed

lemma Shaft_bind_bound_raises:
  "\<forall>x\<in>set conns. \<exists>r. get_shaft h x = Inr r \<Longrightarrow> c \<in> set conns \<Longrightarrow>
   get_shaft h c = Inr (Some s) \<Longrightarrow>
   \<exists>d\<in>set conns. fst (Shaft_bind h self conns) = Inl (ValueError_ShaftAlreadySet d)"
proof (induction conns arbitrary: h)
  case Nil
  then show ?case by simp
next
  case (Cons conn conns)
  from Cons.prems(1) obtain r where r: "get_shaft h conn = Inr r" by auto
  show ?case
  proof (cases r)
    case None
    with r Cons.prems have ne: "c \<noteq> conn" by auto
    with Cons.prems have cin: "c \<in> set conns" by simp
    let ?h = "set_shaft h conn (Some self)"
    have all: "\<forall>x\<in>set conns. \<exists>r. get_shaft ?h x = Inr r"
    proof
      fix x assume x: "x \<in> set conns"
      show "\<exists>r. get_shaft ?h x = Inr r"
      proof (cases "x = conn")
        case True
        then show ?thesis using get_shaft_set_shaft_same [OF r] by blast
      next
        case False
        then show ?thesis using Cons.prems(1) x by (simp add: get_shaft_set_shaft_other)
      qed
    qed
    have "get_shaft ?h c = Inr (Some s)"
      using ne Cons.prems(3) by (simp add: get_shaft_set_shaft_other)
    from Cons.IH [OF all cin this] r None show ?thesis by auto
  next
    case (Some s')
    with r show ?thesis by simp
  qed
qed

section \<open>Equality and hash\<close>

text \<open>
  Claim C1 says that two distinct elements with the same field values compare unequal and
  that every element's hash comes from its identity. \<open>ArchElement\<close> writes
  \<open>__hash__ = id(self)\<close> but no \<open>__eq__\<close>, so \<open>@dataclass\<close> generates the field-wise one,
  and the subclasses lose the hash altogether. Two distinct \<open>Inlet\<close>s created with the same
  arguments (equal heap contents at the addresses 1 and 2) compare equal, and \<open>hash\<close> of
  an \<open>Inlet\<close> raises \<open>TypeError\<close>.
\<close>

theorem Inlet_eq_by_value:
  "(1::addr) \<noteq> 2 \<and> heap_two_inlets 1 = heap_two_inlets 2
   \<and> py_eq (Suc 0) heap_two_inlets 1 2 = Inr True
   \<and> py_hash heap_two_inlets 1 = Inl TypeError"
  by (simp add: heap_two_inlets_def py_hash_def)

text \<open>
  Claim C2: architecture equality is identity-based. For two architecture objects of the
  heap, whatever their element lists (the same list included), \<open>a == b\<close> answers whether
  \<open>a\<close> and \<open>b\<close> are the same object, both through the operator \<open>==\<close> and through a
  direct call of \<open>__eq__\<close>.
\<close>

theorem TurbofanArchitecture_eq_identity:
  assumes "h a = Some (TurbofanArchitecture es)" and "h b = Some (TurbofanArchitecture es')"
  shows "py_eq (Suc n) h a b = Inr (a = b) \<and> TurbofanArchitecture_eq h a b = Inr (a = b)"
  using assms by (simp add: TurbofanArchitecture_eq_def py_hash_def py_id_def)

theorem TurbofanArchitecture_eq_identity_witness:
  "heap_two_archs 10 = Some (TurbofanArchitecture [1])
   \<and> heap_two_archs 11 = Some (TurbofanArchitecture [1])
   \<and> py_eq (Suc 0) heap_two_archs 10 11 = Inr False
   \<and> py_eq (Suc 0) heap_two_archs 10 10 = Inr True"
proof -
  have a: "heap_two_archs 10 = Some (TurbofanArchitecture [1])"
    and b: "heap_two_archs 11 = Some (TurbofanArchitecture [1])"
    by (simp_all add: heap_two_archs_def)
  from TurbofanArchitecture_eq_identity [of heap_two_archs 10 "[1]" 11 "[1]" 0]
    TurbofanArchitecture_eq_identity [of heap_two_archs 10 "[1]" 10 "[1]" 0] a b
  show ?thesis by simp
qed

section \<open>Realize\<close>

text \<open>
  Claim C3: \<open>add_element\<close> of a \<open>Compressor\<close> or \<open>Turbine\<close> whose shaft is \<open>None\<close> raises
  the \<open>ValueError\<close> \<open>'Not connected to shaft'\<close> and leaves the cycle as it was, so that no
  module has been registered; with a shaft bound that error is not raised, and when the
  shaft has a name the module is registered with \<open>Nmech\<close> promoted to
  \<open><shaft name>_Nmech\<close>.
\<close>

theorem add_element_requires_shaft:
  "add_element h (Compressor n t cmap m pr e None) cycle td d
     = (Inl ValueError_NotConnectedToShaft, cycle)
   \<and> add_element h (Turbine n t tmap m e None) cycle td d
     = (Inl ValueError_NotConnectedToShaft, cycle)
   \<and> fst (add_element h (Compressor n t cmap m pr e (Some s)) cycle td d)
     \<noteq> Inl ValueError_NotConnectedToShaft
   \<and> fst (add_element h (Turbine n t tmap m e (Some s)) cycle td d)
     \<noteq> Inl ValueError_NotConnectedToShaft
   \<and> (getattr_name h (Some s) = Inr sn \<longrightarrow>
        add_element h (Compressor n t cmap m pr e (Some s)) cycle td d
          = (Inr (Some (pyc_Compressor (CompressorMap_value cmap) d td AIR_MIX)),
             cycle @ pyc_add_element n (pyc_Compressor (CompressorMap_value cmap) d td AIR_MIX)
                       [(''Nmech'', sn @ ''_Nmech'')]
                     # (if d then [el_set_input_defaults n ''MN'' m] else []))
        \<and> add_element h (Turbine n t tmap m e (Some s)) cycle td d
          = (Inr (Some (pyc_Turbine (TurbineMap_value tmap) d td AIR_FUEL_MIX)),
             cycle @ pyc_add_element n (pyc_Turbine (TurbineMap_value tmap) d td AIR_FUEL_MIX)
                       [(''Nmech'', sn @ ''_Nmech'')]
                     # (if d then [el_set_input_defaults n ''MN'' m] else [])))"
  by (auto simp: getattr_name_def Let_def split: option.splits sum.splits)

theorem add_element_requires_shaft_witness:
  "getattr_name heap_hp_spool (Some 3) = Inr ''hp_shaft''
   \<and> add_element heap_hp_spool (Compressor ''hpc'' None AXI_5 0.01 5 1 (Some 3)) [] 0 True
       = (Inr (Some (pyc_Compressor ''AXI5'' True 0 AIR_MIX)),
          [pyc_add_element ''hpc'' (pyc_Compressor ''AXI5'' True 0 AIR_MIX)
             [(''Nmech'', ''hp_shaft_Nmech'')],
           el_set_input_defaults ''hpc'' ''MN'' 0.01])
   \<and> add_element heap_hp_spool (Compressor ''lpc'' None AXI_5 0.01 5 1 None) [] 0 True
       = (Inl ValueError_NotConnectedToShaft, [])"
proof -
  have g: "getattr_name heap_hp_spool (Some 3) = Inr ''hp_shaft''"
    by (simp add: getattr_name_def heap_hp_spool_def)
  from add_element_requires_shaft [of heap_hp_spool "''hpc''" None AXI_5 "0.01" 5 1 "[]" 0 True
      LPT_2269 3 "''hp_shaft''"]
    add_element_requires_shaft [of heap_hp_spool "''lpc''" None AXI_5 "0.01" 5 1 "[]" 0 True
      LPT_2269 3 "''hp_shaft''"] g
  show ?thesis by simp
qed

text \<open>
  Claim C5: \<open>add_element\<close> of a \<open>Shaft\<close> whose connections are \<open>None\<close> or fewer than two
  raises the \<open>ValueError\<close> \<open>'Shaft should at least connect two turbomachinery elements!'\<close>
  and registers nothing; with two or more connections it succeeds and registers a
  \<open>pyc.Shaft\<close> with \<open>num_ports\<close> equal to the number of connections.
\<close>

theorem Shaft_add_element_topology:
  "add_element h (Shaft n None r p) cycle td d = (Inl ValueError_ShaftTooFewConnections, cycle)
   \<and> (length cs < 2 \<longrightarrow>
      add_element h (Shaft n (Some cs) r p) cycle td d
        = (Inl ValueError_ShaftTooFewConnections, cycle))
   \<and> (2 \<le> length cs' \<longrightarrow>
      add_element h (Shaft n (Some cs') r p) cycle td d
        = (Inr (Some (pyc_Shaft (length cs'))),
           cycle @ pyc_add_element n (pyc_Shaft (length cs')) [(''Nmech'', n @ ''_Nmech'')]
                   # (if d then [cycle_set_input_defaults (n @ ''_Nmech'') r RPM] else [])))"
  by (simp add: Let_def)

theorem Shaft_add_element_topology_witness:
  "length [1::addr] < 2 \<and> 2 \<le> length [1::addr, 2]
   \<and> add_element heap_hp_spool (Shaft ''s'' (Some [1]) 10000 0) [] 0 True
     = (Inl ValueError_ShaftTooFewConnections, [])
   \<and> add_element heap_hp_spool (Shaft ''s'' (Some [1, 2]) 10000 0) [] 0 True
     = (Inr (Some (pyc_Shaft 2)),
        [pyc_add_element ''s'' (pyc_Shaft 2) [(''Nmech'', ''s_Nmech'')],
         cycle_set_input_defaults ''s_Nmech'' 10000 RPM])"
proof -
  have a: "length [1::addr] < 2" and b: "2 \<le> length [1::addr, 2]" by simp_all
  note t = Shaft_add_element_topology [of heap_hp_spool "''s''" 10000 0 "[]" 0 True
      "[1]" "[1, 2]"]
  from t a have one: "add_element heap_hp_spool (Shaft ''s'' (Some [1]) 10000 0) [] 0 True
     = (Inl ValueError_ShaftTooFewConnections, [])" by blast
  from t b have two: "add_element heap_hp_spool (Shaft ''s'' (Some [1, 2]) 10000 0) [] 0 True
        = (Inr (Some (pyc_Shaft (length [1::addr, 2]))),
           [] @ pyc_add_element ''s'' (pyc_Shaft (length [1::addr, 2]))
                  [(''Nmech'', ''s'' @ ''_Nmech'')]
                   # (if True then [cycle_set_input_defaults (''s'' @ ''_Nmech'') 10000 RPM]
                      else []))" by blast
  from two have "add_element heap_hp_spool (Shaft ''s'' (Some [1, 2]) 10000 0) [] 0 True
     = (Inr (Some (pyc_Shaft 2)),
        [pyc_add_element ''s'' (pyc_Shaft 2) [(''Nmech'', ''s_Nmech'')],
         cycle_set_input_defaults ''s_Nmech'' 10000 RPM])" by simp
  with a b one show ?thesis by blast
qed

section \<open>Shaft construction\<close>

text \<open>
  Claim C4: constructing a \<open>Shaft\<close> at a fresh address over connections that are all
  turbomachinery, one of which already has a shaft bound, raises the \<open>ValueError\<close>
  \<open>'Shaft already set'\<close> during construction.
\<close>

theorem Shaft_init_duplicate_binding:
  assumes fresh: "h self = None"
    and turbo: "\<forall>x\<in>set conns. \<exists>r. get_shaft h x = Inr r"
    and c: "c \<in> set conns" and bound: "get_shaft h c = Inr (Some s)"
  shows "\<exists>d\<in>set conns.
           fst (Shaft_init h self name (Some conns) rpm_design power_loss)
             = Inl (ValueError_ShaftAlreadySet d)"
proof -
  let ?h = "h(self \<mapsto> Shaft name (Some conns) rpm_design power_loss)"
  have ne: "x \<noteq> self" if "x \<in> set conns" for x
  proof
    assume "x = self"
    with that turbo fresh show False by (auto simp: get_shaft_def)
  qed
  have same: "get_shaft ?h x = get_shaft h x" if "x \<in> set conns" for x
    using ne [OF that] by (simp add: get_shaft_def)
  have t: "\<forall>x\<in>set conns. \<exists>r. get_shaft ?h x = Inr r" using turbo same by simp
  have b: "get_shaft ?h c = Inr (Some s)" using bound same c by simp
  from Shaft_bind_bound_raises [OF t c b]
  show ?thesis by (simp add: Shaft_init_def Shaft_post_init_def)
qed

theorem Shaft_init_duplicate_binding_witness:
  "heap_hp_spool 6 = None
   \<and> get_shaft heap_hp_spool 5 = Inr None
   \<and> get_shaft heap_hp_spool 1 = Inr (Some 3)
   \<and> (\<exists>d\<in>set [5, 1]. fst (Shaft_init heap_hp_spool 6 ''lp_shaft'' (Some [5, 1]) 10000 0)
         = Inl (ValueError_ShaftAlreadySet d))"
proof -
  have f: "heap_hp_spool 6 = None" by (simp add: heap_hp_spool_def)
  have g5: "get_shaft heap_hp_spool 5 = Inr None"
    by (simp add: heap_hp_spool_def get_shaft_def)
  have b: "get_shaft heap_hp_spool 1 = Inr (Some 3)"
    by (simp add: heap_hp_spool_def get_shaft_def)
  have t: "\<forall>x\<in>set [5, 1]. \<exists>r. get_shaft heap_hp_spool x = Inr r"
    using g5 b by simp
  have c: "(1::addr) \<in> set [5, 1]" by simp
  note r = Shaft_init_duplicate_binding [of heap_hp_spool 6 "[5, 1]" 1 3 "''lp_shaft''" 10000 0,
      OF f t c b]
  show ?thesis by (rule conjI [OF f conjI [OF g5 conjI [OF b r]]])
qed

text \<open>
  Claim C9: shaft construction is not atomic. If constructing a \<open>Shaft\<close> raises
  \<open>'Shaft already set'\<close> for the connection \<open>c\<close>, then \<open>c\<close> stands at a position \<open>i\<close> of the
  connections such that the loop ran through the \<open>i\<close> connections before it without
  raising; each of them had no shaft when the construction began and refers to the new
  shaft in the heap that the exception leaves behind.
\<close>

theorem Shaft_init_not_atomic:
  assumes "Shaft_init h self name (Some conns) rpm_design power_loss
             = (Inl (ValueError_ShaftAlreadySet c), h')"
  shows "\<exists>i<length conns. conns ! i = c
           \<and> Shaft_bind (h(self \<mapsto> Shaft name (Some conns) rpm_design power_loss)) self
                (take i conns) = (Inr (), h')
           \<and> (\<exists>s. get_shaft h' c = Inr (Some s))
           \<and> (\<forall>j<i. get_shaft (h(self \<mapsto> Shaft name (Some conns) rpm_design power_loss))
                         (conns ! j) = Inr None
                    \<and> get_shaft h' (conns ! j) = Inr (Some self))"
proof -
  let ?h = "h(self \<mapsto> Shaft name (Some conns) rpm_design power_loss)"
  from assms have "Shaft_bind ?h self conns = (Inl (ValueError_ShaftAlreadySet c), h')"
    by (simp add: Shaft_init_def Shaft_post_init_def)
  from Shaft_bind_raise_position [OF this] obtain i where i: "i < length conns" "conns ! i = c"
    "Shaft_bind ?h self (take i conns) = (Inr (), h')" "\<exists>s. get_shaft h' c = Inr (Some s)"
    by blast
  have "get_shaft ?h (conns ! j) = Inr None \<and> get_shaft h' (conns ! j) = Inr (Some self)"
    if "j < i" for j
  proof -
    from that i(1) have "j < length (take i conns)" by simp
    then have "take i conns ! j \<in> set (take i conns)" by (rule nth_mem)
    moreover from that have "take i conns ! j = conns ! j" by simp
    ultimately have "conns ! j \<in> set (take i conns)" by simp
    from Shaft_bind_ok_bound [OF i(3) this] show ?thesis .
  qed
  with i show ?thesis by blast
qed

theorem Shaft_init_not_atomic_witness:
  "Shaft_init heap_hp_spool 6 ''lp_shaft'' (Some [5, 1]) 10000 0
     = (Inl (ValueError_ShaftAlreadySet 1), heap_lp_failed)
   \<and> (\<exists>i<length [5::addr, 1]. [5::addr, 1] ! i = 1
        \<and> Shaft_bind (heap_hp_spool(6 \<mapsto> Shaft ''lp_shaft'' (Some [5, 1]) 10000 0)) 6
             (take i [5, 1]) = (Inr (), heap_lp_failed)
        \<and> (\<exists>s. get_shaft heap_lp_failed 1 = Inr (Some s))
        \<and> (\<forall>j<i. get_shaft (heap_hp_spool(6 \<mapsto> Shaft ''lp_shaft'' (Some [5, 1]) 10000 0))
                      ([5, 1] ! j) = Inr None
                 \<and> get_shaft heap_lp_failed ([5, 1] ! j) = Inr (Some 6)))
   \<and> get_shaft heap_hp_spool 5 = Inr None
   \<and> get_shaft heap_lp_failed 5 = Inr (Some 6)"
proof -
  let ?h0 = "heap_hp_spool(6 \<mapsto> Shaft ''lp_shaft'' (Some [5, 1]) 10000 0)"
  have before: "get_shaft heap_hp_spool 5 = Inr None"
    by (simp add: heap_hp_spool_def get_shaft_def)
  have g5: "get_shaft ?h0 5 = Inr None"
    by (simp add: heap_hp_spool_def get_shaft_def)
  have "get_shaft ?h0 1 = Inr (Some 3)"
    by (simp add: heap_hp_spool_def get_shaft_def)
  then have g1: "get_shaft heap_lp_failed 1 = Inr (Some 3)"
    by (simp add: heap_lp_failed_def get_shaft_set_shaft_other)
  have after: "get_shaft heap_lp_failed 5 = Inr (Some 6)"
    unfolding heap_lp_failed_def using g5 by (rule get_shaft_set_shaft_same)
  have "Shaft_bind ?h0 6 [5, 1] = (Inl (ValueError_ShaftAlreadySet 1), heap_lp_failed)"
    using g5 g1 by (simp add: heap_lp_failed_def)
  then have e: "Shaft_init heap_hp_spool 6 ''lp_shaft'' (Some [5, 1]) 10000 0
     = (Inl (ValueError_ShaftAlreadySet 1), heap_lp_failed)"
    by (simp add: Shaft_init_def Shaft_post_init_def)
  note r = Shaft_init_not_atomic [OF e]
  show ?thesis by (rule conjI [OF e conjI [OF r conjI [OF before after]]])
qed

section \<open>Wire\<close>

text \<open>
  Claim C10: for each element that wires through \<open>_connect_flow_target\<close>, a target that is
  \<open>None\<close> makes \<open>connect\<close> declare no flow edge for that connection and raise nothing:
  the helper returns with the cycle unchanged; \<open>Inlet\<close> declares only its free-stream edge;
  \<open>Duct\<close>, \<open>Mixer\<close>, \<open>Compressor\<close>, \<open>Burner\<close> and \<open>Turbine\<close> declare nothing; a \<open>Splitter\<close>
  does for each branch exactly what the helper does for the other branch alone.
\<close>

theorem connect_without_target:
  "connect_flow_target h n cycle None out_flow in_flow = (Inr (), cycle)
   \<and> connect h (Inlet n None m p) cycle
       = (Inr (), cycle @ [pyc_connect_flow ''fc.Fl_O'' (n @ ''.Fl_I'') connect_w_False])
   \<and> connect h (Duct n None m p f s d) cycle = (Inr (), cycle)
   \<and> connect h (Splitter n None None b cm bm) cycle = (Inr (), cycle)
   \<and> connect h (Splitter n None tb b cm bm) cycle
       = connect_flow_target h n cycle tb ''Fl_O2'' ''Fl_I''
   \<and> connect h (Splitter n tc None b cm bm) cycle
       = connect_flow_target h n cycle tc ''Fl_O1'' ''Fl_I''
   \<and> connect h (Mixer n sa sb None m) cycle = (Inr (), cycle)
   \<and> connect h (Compressor n None cmap m pr e sh) cycle = (Inr (), cycle)
   \<and> connect h (Burner n None fu m p) cycle = (Inr (), cycle)
   \<and> connect h (Turbine n None tmap m e sh) cycle = (Inr (), cycle)"
proof -
  have none: "connect_flow_target h n c None out_flow in_flow = (Inr (), c)"
    for c out_flow in_flow
    by (simp add: connect_flow_target_def)
  have core: "connect h (Splitter n tc None b cm bm) cycle
       = connect_flow_target h n cycle tc ''Fl_O1'' ''Fl_I''"
    by (cases "connect_flow_target h n cycle tc ''Fl_O1'' ''Fl_I''")
      (auto simp: none split: sum.splits)
  show ?thesis by (simp add: none core del: connect.simps(4)) (simp add: none)
qed

section \<open>DeclareParameters and LinkDesignOffDesign\<close>

text \<open>
  Claim C6, as amended: \<open>connect_des_od\<close> of a \<open>Compressor\<close> declares exactly five links,
  in this order: \<open>s_PR\<close>, \<open>s_Wc\<close>, \<open>s_eff\<close> and \<open>s_Nc\<close>, each with the same path
  \<open><name>.<param>\<close> on the design and on the off-design side, and the exit area, from
  \<open><name>.Fl_O:stat:area\<close> on the design side to \<open><name>.area\<close> on the off-design side.
\<close>

theorem Compressor_connect_des_od_links:
  "connect_des_od (Compressor n t cmap m pr e sh) mp
     = (Inr (), mp @ [pyc_connect_des_od (n @ ''.s_PR'') (n @ ''.s_PR''),
                      pyc_connect_des_od (n @ ''.s_Wc'') (n @ ''.s_Wc''),
                      pyc_connect_des_od (n @ ''.s_eff'') (n @ ''.s_eff''),
                      pyc_connect_des_od (n @ ''.s_Nc'') (n @ ''.s_Nc''),
                      pyc_connect_des_od (n @ ''.Fl_O:stat:area'') (n @ ''.area'')])"
  by (simp add: dotted_def)

text \<open>
  The claim as it stands asks for the same path suffix on both sides of every link; the
  exit-area link of a compressor named \<open>hpc\<close> has two different ones.
\<close>

theorem Compressor_area_link_paths_differ:
  "\<not> (\<forall>l\<in>set (snd (connect_des_od (Compressor ''hpc'' None AXI_5 0.01 5 1 None) [])).
         \<exists>p. l = pyc_connect_des_od (''hpc'' @ p) (''hpc'' @ p))"
  by (simp add: dotted_def)

text \<open>
  Claim C7, as amended: \<open>connect_des_od\<close> of a \<open>BleedInter\<close> declares the exit-area link
  from \<open><name>.Fl_O:stat:area\<close> to \<open><name>.area\<close> whatever the target is, \<open>None\<close> included.
\<close>

theorem BleedInter_connect_des_od_unconditional:
  "connect_des_od (BleedInter n t tb m sw tp f bn) mp
     = (Inr (), mp @ [pyc_connect_des_od (n @ ''.Fl_O:stat:area'') (n @ ''.area'')])"
  by simp

text \<open>
  The claim as it stands has no link declared when the target is \<open>None\<close>; a \<open>BleedInter\<close>
  built with its defaults declares one.
\<close>

theorem BleedInter_links_without_target:
  "snd (connect_des_od (BleedInter ''bld'' None None 0.3 0.05 1 False []) [])
     = [pyc_connect_des_od ''bld.Fl_O:stat:area'' ''bld.area'']
   \<and> snd (connect_des_od (BleedInter ''bld'' None None 0.3 0.05 1 False []) []) \<noteq> []"
  by simp

text \<open>
  The parameters that the loop of \<open>BleedIntra.add_cycle_params\<close> declares when source and
  target have a name: four for each bleed name.
\<close>

lemma BleedIntra_bleed_params_named:
  "getattr_name h s = Inr sn \<Longrightarrow> getattr_name h t = Inr tn \<Longrightarrow>
   BleedIntra_bleed_params h s t sw sp swk tp mp bns
     = (Inr (), mp @ concat (map (\<lambda>b.
          [pyc_add_cycle_param (sn @ ''.'' @ b @ '':frac_W'') sw,
           pyc_add_cycle_param (sn @ ''.'' @ b @ '':frac_P'') sp,
           pyc_add_cycle_param (sn @ ''.'' @ b @ '':frac_work'') swk,
           pyc_add_cycle_param (tn @ ''.'' @ b @ '':frac_P'') tp]) bns))"
  by (induction bns arbitrary: mp) (simp_all add: dotted_def)

text \<open>
  Claim C8, as amended: \<open>add_element\<close> of a \<open>BleedIntra\<close> registers no module and returns
  \<open>None\<close>, and \<open>connect_des_od\<close> declares no link. \<open>add_cycle_params\<close> declares nothing when
  the target is \<open>None\<close>; when the target is set and source and target have a name, it
  declares four parameters for each bleed name, in the order \<open><source>.<bleed>:frac_W\<close>,
  \<open>:frac_P\<close>, \<open>:frac_work\<close> and \<open><target>.<bleed>:frac_P\<close>, so four times the number of
  bleed names in all. Parameter declaration is not the only thing the element does:
  \<open>connect\<close> with the target \<open>None\<close> declares the flow edge from \<open><name>.Fl_O\<close> to
  \<open>fc.Fl_I\<close>.
\<close>

theorem BleedIntra_phases:
  "add_element h (BleedIntra n s t m sw sp swk tp f bns) cycle td d = (Inr None, cycle)
   \<and> add_cycle_params h (BleedIntra n s None m sw sp swk tp f bns) mp = (Inr (), mp)
   \<and> (getattr_name h s = Inr sn \<and> getattr_name h (Some ta) = Inr tn \<longrightarrow>
        add_cycle_params h (BleedIntra n s (Some ta) m sw sp swk tp f bns) mp
          = (Inr (), mp @ concat (map (\<lambda>b.
               [pyc_add_cycle_param (sn @ ''.'' @ b @ '':frac_W'') sw,
                pyc_add_cycle_param (sn @ ''.'' @ b @ '':frac_P'') sp,
                pyc_add_cycle_param (sn @ ''.'' @ b @ '':frac_work'') swk,
                pyc_add_cycle_param (tn @ ''.'' @ b @ '':frac_P'') tp]) bns))
        \<and> length (snd (add_cycle_params h (BleedIntra n s (Some ta) m sw sp swk tp f bns) mp))
          = length mp + 4 * length bns)
   \<and> connect_des_od (BleedIntra n s t m sw sp swk tp f bns) mp = (Inr (), mp)
   \<and> connect h (BleedIntra n s None m sw sp swk tp f bns) cycle
       = (Inr (), cycle @ [pyc_connect_flow (n @ ''.Fl_O'') ''fc.Fl_I'' connect_w_False])"
proof -
  have len: "length (concat (map (\<lambda>b. [g1 b, g2 b, g3 b, g4 b]) bs)) = 4 * length bs"
    for g1 g2 g3 g4 :: "string \<Rightarrow> mp_call" and bs
    by (induction bs) simp_all
  show ?thesis
    by (simp add: BleedIntra_bleed_params_named len)
qed

theorem BleedIntra_phases_witness:
  "getattr_name heap_bleed (Some 1) = Inr ''hpc''
   \<and> getattr_name heap_bleed (Some 2) = Inr ''hpt''
   \<and> add_cycle_params heap_bleed
        (BleedIntra ''bleed'' (Some 1) (Some 2) 0.3 0.05 1 1 1 False [''cool1'']) []
       = (Inr (), [pyc_add_cycle_param ''hpc.cool1:frac_W'' 0.05,
                   pyc_add_cycle_param ''hpc.cool1:frac_P'' 1,
                   pyc_add_cycle_param ''hpc.cool1:frac_work'' 1,
                   pyc_add_cycle_param ''hpt.cool1:frac_P'' 1])"
proof -
  have s: "getattr_name heap_bleed (Some 1) = Inr ''hpc''"
    and t: "getattr_name heap_bleed (Some 2) = Inr ''hpt''"
    by (simp_all add: getattr_name_def heap_bleed_def)
  note r = BleedIntra_phases [of heap_bleed "''bleed''" "Some 1" "Some 2" "0.3" "0.05" 1 1 1
      False "[''cool1'']" "[]" 0 True "[]" "''hpc''" 2 "''hpt''"]
  from r s t have "add_cycle_params heap_bleed
        (BleedIntra ''bleed'' (Some 1) (Some 2) 0.3 0.05 1 1 1 False [''cool1'']) []
       = (Inr (), [] @ concat (map (\<lambda>b.
               [pyc_add_cycle_param (''hpc'' @ ''.'' @ b @ '':frac_W'') 0.05,
                pyc_add_cycle_param (''hpc'' @ ''.'' @ b @ '':frac_P'') 1,
                pyc_add_cycle_param (''hpc'' @ ''.'' @ b @ '':frac_work'') 1,
                pyc_add_cycle_param (''hpt'' @ ''.'' @ b @ '':frac_P'') 1]) [''cool1'']))"
    by blast
  then have "add_cycle_params heap_bleed
        (BleedIntra ''bleed'' (Some 1) (Some 2) 0.3 0.05 1 1 1 False [''cool1'']) []
       = (Inr (), [pyc_add_cycle_param ''hpc.cool1:frac_W'' 0.05,
                   pyc_add_cycle_param ''hpc.cool1:frac_P'' 1,
                   pyc_add_cycle_param ''hpc.cool1:frac_work'' 1,
                   pyc_add_cycle_param ''hpt.cool1:frac_P'' 1])"
    by simp
  with s t show ?thesis by blast
qed

text \<open>
  The claim as it stands has four parameters declared whenever a target is present, and
  parameter declaration as the only behaviour. With the default empty list of bleed names
  none is declared, with two bleed names eight are, and \<open>connect\<close> declares a flow edge.
\<close>

theorem BleedIntra_params_not_four:
  "getattr_name heap_bleed (Some 1) = Inr ''hpc''
   \<and> getattr_name heap_bleed (Some 2) = Inr ''hpt''
   \<and> add_cycle_params heap_bleed
        (BleedIntra ''bleed'' (Some 1) (Some 2) 0.3 0.05 1 1 1 False []) [] = (Inr (), [])
   \<and> length (snd (add_cycle_params heap_bleed
        (BleedIntra ''bleed'' (Some 1) (Some 2) 0.3 0.05 1 1 1 False [''cool1'', ''cool2''])
        [])) = 8
   \<and> length (snd (add_cycle_params heap_bleed
        (BleedIntra ''bleed'' (Some 1) (Some 2) 0.3 0.05 1 1 1 False [''cool1'', ''cool2''])
        [])) \<noteq> 4
   \<and> connect heap_bleed (BleedIntra ''bleed'' (Some 1) None 0.3 0.05 1 1 1 False []) []
       = (Inr (), [pyc_connect_flow ''bleed.Fl_O'' ''fc.Fl_I'' connect_w_False])"
  by (simp add: getattr_name_def heap_bleed_def dotted_def)

end
